theory Spec2Isabelle
  imports Main "HOL-Library.AList"
begin

section \<open>The kfp-api operator: statuses, errors and the observed world\<close>

text \<open>
  The model follows \<^verbatim>\<open>src/charms/kfp-api/src/charm.py\<close>. A Python exception is a value of
  \<open>error\<close>; a method that only reads the model returns \<open>error + 'a\<close>; a method that
  assigns \<^verbatim>\<open>self.model.unit.status\<close> returns the raised exception (if any) together with the
  state it leaves behind, because a status written before an exception escapes stays written.
  Log lines are not part of the state: no branch of the charm depends on them.
\<close>

datatype status_type = Active | Blocked | Maintenance | Waiting

text \<open>\<open>Status t msg\<close> is the object \<^verbatim>\<open>t(msg)\<close>; \<^verbatim>\<open>ActiveStatus()\<close> has the empty message.\<close>

datatype status = Status status_type string

text \<open>
  \<open>ErrorWithStatus msg t\<close> carries the status \<open>Status t msg\<close> (its \<^verbatim>\<open>.status\<close> property).
  \<open>GenericCharmRuntimeError\<close> is a separate exception class without a status.
  \<open>TooManyRelatedAppsError\<close> is what \<^verbatim>\<open>Model.get_relation\<close> raises for several relations
  under one name; \<open>ValueError\<close> is what unpacking a list of the wrong length into two names
  raises; \<open>ApiError\<close> carries the HTTP code of a failed cluster call; \<open>PebbleError\<close> stands
  for whatever a failed container call raises.
\<close>

datatype error =
    ErrorWithStatus string status_type
  | GenericCharmRuntimeError string
  | KeyError string
  | ValueError
  | TooManyRelatedAppsError string
  | ApiError nat
  | PebbleError string

text \<open>A Python \<^verbatim>\<open>dict\<close> from strings to strings, in insertion order.\<close>

type_synonym databag = "(string \<times> string) list"

text \<open>
  A relation: its remote units in the order \<^verbatim>\<open>iter(relation.units)\<close> yields them, each with
  the data bag \<^verbatim>\<open>relation.data[unit]\<close>.
\<close>

record relation =
  units :: "(string \<times> databag) list"

datatype check_status = UP | DOWN

text \<open>
  What \<^verbatim>\<open>get_data()\<close> of a SerializedDataInterface gives: a schema failure, or the values of
  the dictionary it returns, in order.
\<close>

datatype get_data_result = ValidationError | Data "databag list"

datatype interface = SerializedDataInterface get_data_result | OtherInterface

datatype get_interfaces_result =
    NoVersionsListed string
  | NoCompatibleVersions string
  | RelationDataError string
  | Interfaces "(string \<times> interface option) list"

text \<open>
  The state one hook sees. Everything but \<open>status\<close> is read only: \<open>relations\<close> is
  \<^verbatim>\<open>self.model.relations\<close> (\<open>None\<close> for a name the charm does not declare, which is a
  \<^verbatim>\<open>KeyError\<close>), \<open>fetch_relation_data\<close> the result of the database library's call of that
  name, \<open>interfaces\<close> the outcome of \<^verbatim>\<open>get_interfaces(self)\<close>, \<open>config\<close> is
  \<^verbatim>\<open>self.model.config\<close> with every option rendered as Python's \<^verbatim>\<open>str\<close> renders it, \<open>push\<close> the
  outcome of \<^verbatim>\<open>container.push\<close> per path, \<open>k8s_apply\<close> the outcome of the resource handler's
  \<^verbatim>\<open>apply\<close> per \<^verbatim>\<open>force\<close> flag (\<open>Some code\<close> is an \<^verbatim>\<open>ApiError\<close>), \<open>k8s_delete\<close> that of
  \<^verbatim>\<open>delete_many\<close>, \<open>update_layer\<close> that of the library call of that name, and \<open>get_check\<close>
  that of \<^verbatim>\<open>container.get_check("kfp-api-up")\<close> (\<open>None\<close> is a \<^verbatim>\<open>ModelError\<close>).
\<close>

record state =
  is_leader :: bool
  relations :: "string \<Rightarrow> relation list option"
  fetch_relation_data :: "(nat \<times> databag) list"
  interfaces :: get_interfaces_result
  config :: databag
  can_connect :: bool
  push :: "string \<Rightarrow> error option"
  k8s_apply :: "bool \<Rightarrow> nat option"
  k8s_delete :: "nat option"
  update_layer :: "error option"
  get_check :: "check_status option"
  status :: status

section \<open>Python primitives\<close>

definition and_then :: "error + 'a \<Rightarrow> ('a \<Rightarrow> error + 'b) \<Rightarrow> error + 'b" where
  "and_then m f = (case m of Inl e \<Rightarrow> Inl e | Inr x \<Rightarrow> f x)"

text \<open>\<^verbatim>\<open>d[k]\<close>: the value, or \<^verbatim>\<open>KeyError\<close>.\<close>

definition getitem :: "(string \<times> 'v) list \<Rightarrow> string \<Rightarrow> error + 'v" where
  "getitem d k = (case map_of d k of None \<Rightarrow> Inl (KeyError k) | Some v \<Rightarrow> Inr v)"

text \<open>\<^verbatim>\<open>d[k] = v\<close>: replaces the value in place, or appends the key.\<close>

definition setitem :: "databag \<Rightarrow> string \<Rightarrow> string \<Rightarrow> databag" where
  "setitem d k v = AList.update k v d"

text \<open>\<^verbatim>\<open>s.split(sep)\<close> for a one-character separator: one more piece than separators.\<close>

fun str_split :: "string \<Rightarrow> char \<Rightarrow> string list" where
  "str_split [] sep = [[]]"
| "str_split (c # cs) sep =
     (if c = sep then [] # str_split cs sep
      else (case str_split cs sep of
              w # ws \<Rightarrow> (c # w) # ws
            | [] \<Rightarrow> [[c]]))"

text \<open>\<^verbatim>\<open>s.lower()\<close> on ASCII text.\<close>

definition lower_char :: "char \<Rightarrow> char" where
  "lower_char c =
     (let n = (of_char c :: nat) in if 65 \<le> n \<and> n \<le> 90 then char_of (n + 32) else c)"

definition lower :: "string \<Rightarrow> string" where
  "lower s = map lower_char s"

text \<open>
  \<^verbatim>\<open>Model.get_relation(name)\<close> of the ops framework: \<^verbatim>\<open>None\<close> for no relation, the relation
  when there is one, \<^verbatim>\<open>TooManyRelatedAppsError\<close> for more, \<^verbatim>\<open>KeyError\<close> for an undeclared name.
\<close>

definition model_get_relation :: "state \<Rightarrow> string \<Rightarrow> error + relation option" where
  "model_get_relation s name =
     (case relations s name of
        None \<Rightarrow> Inl (KeyError name)
      | Some [] \<Rightarrow> Inr None
      | Some [r] \<Rightarrow> Inr (Some r)
      | Some (r # r' # rs) \<Rightarrow> Inl (TooManyRelatedAppsError name))"

text \<open>\<^verbatim>\<open>self.model.relations[name]\<close>: the list of relations, \<^verbatim>\<open>KeyError\<close> for an undeclared name.\<close>

definition getitem_relations :: "state \<Rightarrow> string \<Rightarrow> error + relation list" where
  "getitem_relations s name =
     (case relations s name of None \<Rightarrow> Inl (KeyError name) | Some rs \<Rightarrow> Inr rs)"

section \<open>Constants of the charm\<close>

definition MYSQL_WARNING :: string where
  "MYSQL_WARNING = ''Relation mysql is deprecated.''"

definition UNBLOCK_MESSAGE :: string where
  "UNBLOCK_MESSAGE = ''Remove deprecated mysql relation to unblock.''"

definition SAMPLE_CONFIG :: string where
  "SAMPLE_CONFIG = ''/config/sample_config.json''"

definition CONFIG_JSON :: string where
  "CONFIG_JSON = ''/config/config.json''"

definition database_name :: string where
  "database_name = ''mlpipeline''"

section \<open>Database resolution\<close>

definition check_leader :: "state \<Rightarrow> error + unit" where
  "check_leader s =
     (if \<not> is_leader s then Inl (ErrorWithStatus ''Waiting for leadership'' Waiting)
      else Inr ())"

definition get_db_relation :: "state \<Rightarrow> string \<Rightarrow> error + relation" where
  "get_db_relation s relation_name =
     (case (case model_get_relation s relation_name of
              Inl (KeyError k) \<Rightarrow> Inr None
            | r \<Rightarrow> r) of
        Inl e \<Rightarrow> Inl e
      | Inr None \<Rightarrow>
          Inl (GenericCharmRuntimeError
                 (''Database relation '' @ relation_name @ '' is not established or empty''))
      | Inr (Some relation) \<Rightarrow> Inr relation)"

text \<open>The body of the \<^verbatim>\<open>try\<close> of \<^verbatim>\<open>_get_mysql_data\<close>, once the first unit's data is read.\<close>

definition mysql_db_data :: "databag \<Rightarrow> error + databag" where
  "mysql_db_data relation_data =
     and_then (getitem relation_data ''database'') (\<lambda>v1.
     and_then (getitem relation_data ''root_password'') (\<lambda>v2.
     let db_data = setitem (setitem (setitem [] ''db_name'' v1) ''db_password'' v2)
                     ''db_username'' ''root'' in
     and_then (getitem relation_data ''host'') (\<lambda>v3.
     and_then (getitem relation_data ''port'') (\<lambda>v4.
     Inr (setitem (setitem db_data ''db_host'' v3) ''db_port'' v4)))))"

definition get_mysql_data :: "state \<Rightarrow> error + databag" where
  "get_mysql_data s =
     (case get_db_relation s ''mysql'' of
        Inl e \<Rightarrow> Inl e
      | Inr relation \<Rightarrow>
          (case units relation of
             [] \<Rightarrow>
               Inl (GenericCharmRuntimeError
                      ''Database relation mysql is not established or empty'')
           | (unit, relation_data) # others \<Rightarrow>
               (case mysql_db_data relation_data of
                  Inl (KeyError k) \<Rightarrow>
                    (if relation_data = [] then
                       Inl (GenericCharmRuntimeError
                              ''Database relation mysql is not established or empty'')
                     else
                       Inl (ErrorWithStatus
                              ''Incorrect/incomplete data found in relation mysql. See logs''
                              Waiting))
                | r \<Rightarrow> r)))"

text \<open>
  One round of the loop of \<^verbatim>\<open>_get_relational_db_data\<close> over a non-empty \<open>val\<close>: the
  assignments up to the first exception.
\<close>

definition relational_db_entry :: "databag \<Rightarrow> databag \<Rightarrow> error + databag" where
  "relational_db_entry val db_data =
     (let d1 = setitem db_data ''db_name'' database_name in
      and_then (getitem val ''password'') (\<lambda>v1.
      let d2 = setitem d1 ''db_password'' v1 in
      and_then (getitem val ''username'') (\<lambda>v2.
      let d3 = setitem d2 ''db_username'' v2 in
      and_then (getitem val ''endpoints'') (\<lambda>v3.
      (case str_split v3 (CHR '':'') of
         [host, port] \<Rightarrow> Inr (setitem (setitem d3 ''db_host'' host) ''db_port'' port)
       | _ \<Rightarrow> Inl ValueError)))))"

fun relational_db_loop :: "databag list \<Rightarrow> databag \<Rightarrow> error + databag" where
  "relational_db_loop [] db_data = Inr db_data"
| "relational_db_loop (val # vals) db_data =
     (if val = [] then relational_db_loop vals db_data
      else (case relational_db_entry val db_data of
              Inl (KeyError k) \<Rightarrow>
                Inl (ErrorWithStatus
                       ''Incorrect/incomplete data found in relation relational-db. See logs''
                       Waiting)
            | Inl e \<Rightarrow> Inl e
            | Inr db_data' \<Rightarrow> relational_db_loop vals db_data'))"

definition get_relational_db_data :: "state \<Rightarrow> error + databag" where
  "get_relational_db_data s =
     (case get_db_relation s ''relational-db'' of
        Inl e \<Rightarrow> Inl e
      | Inr relation \<Rightarrow>
          (case relational_db_loop (map snd (fetch_relation_data s)) [] of
             Inl e \<Rightarrow> Inl e
           | Inr db_data \<Rightarrow>
               (if db_data = [] then
                  Inl (ErrorWithStatus ''Waiting for relational-db data'' Waiting)
                else Inr db_data)))"

definition get_db_data :: "state \<Rightarrow> error + databag" where
  "get_db_data s =
     (case get_mysql_data s of
        Inl (GenericCharmRuntimeError m) \<Rightarrow>
          (case get_relational_db_data s of
             Inl (GenericCharmRuntimeError m') \<Rightarrow>
               Inl (ErrorWithStatus
                      ''Please add required database relation: eg. relational-db'' Blocked)
           | r \<Rightarrow> r)
      | r \<Rightarrow> r)"

section \<open>Relation data validator\<close>

definition get_interfaces :: "state \<Rightarrow> error + (string \<times> interface option) list" where
  "get_interfaces s =
     (case interfaces s of
        NoVersionsListed err \<Rightarrow> Inl (ErrorWithStatus err Waiting)
      | NoCompatibleVersions err \<Rightarrow> Inl (ErrorWithStatus err Blocked)
      | RelationDataError err \<Rightarrow> Inl (ErrorWithStatus err Blocked)
      | Interfaces d \<Rightarrow> Inr d)"

definition validate_sdi_interface ::
  "(string \<times> interface option) list \<Rightarrow> string \<Rightarrow> databag option \<Rightarrow> error + databag" where
  "validate_sdi_interface ifaces relation_name default_return =
     (case (case map_of ifaces relation_name of None \<Rightarrow> None | Some i \<Rightarrow> i) of
        None \<Rightarrow>
          (case default_return of
             Some d \<Rightarrow> Inr d
           | None \<Rightarrow>
               Inl (ErrorWithStatus (''Please add required relation '' @ relation_name) Blocked))
      | Some OtherInterface \<Rightarrow>
          Inl (ErrorWithStatus
                 (''Unexpected error with '' @ relation_name
                    @ '' relation data - data not as expected'')
                 Blocked)
      | Some (SerializedDataInterface ValidationError) \<Rightarrow>
          Inl (ErrorWithStatus
                 (''Found incomplete/incorrect relation data for '' @ relation_name
                    @ ''. See logs'')
                 Blocked)
      | Some (SerializedDataInterface (Data unpacked_relation_data)) \<Rightarrow>
          (case unpacked_relation_data of
             [] \<Rightarrow>
               Inl (ErrorWithStatus (''Waiting for '' @ relation_name @ '' relation data'')
                      Waiting)
           | data_dict # others \<Rightarrow>
               (if length data_dict = 0 then
                  Inl (ErrorWithStatus (''Found empty relation data for '' @ relation_name)
                         Blocked)
                else Inr data_dict)))"

definition get_object_storage :: "(string \<times> interface option) list \<Rightarrow> error + databag" where
  "get_object_storage ifaces = validate_sdi_interface ifaces ''object-storage'' None"

definition get_viz :: "(string \<times> interface option) list \<Rightarrow> error + databag" where
  "get_viz ifaces = validate_sdi_interface ifaces ''kfp-viz'' None"

section \<open>Configuration generator\<close>

datatype json = JStr string | JObj "(string \<times> json) list"

text \<open>
  The document of \<^verbatim>\<open>_generate_config\<close>. The subscripts are evaluated in the order of the
  dictionary display, and the first missing key is the \<^verbatim>\<open>KeyError\<close> raised. Relation and
  configuration values stand for their \<^verbatim>\<open>str\<close> rendering.
\<close>

definition config_json :: "databag \<Rightarrow> databag \<Rightarrow> databag \<Rightarrow> databag \<Rightarrow> error + json" where
  "config_json cfg db_data os viz =
     and_then (getitem db_data ''db_name'') (\<lambda>db_name.
     and_then (getitem db_data ''db_host'') (\<lambda>db_host.
     and_then (getitem db_data ''db_password'') (\<lambda>db_password.
     and_then (getitem db_data ''db_port'') (\<lambda>db_port.
     and_then (getitem db_data ''db_username'') (\<lambda>db_username.
     and_then (getitem os ''access-key'') (\<lambda>access_key.
     and_then (getitem cfg ''object-store-bucket-name'') (\<lambda>bucket.
     and_then (getitem os ''service'') (\<lambda>service.
     and_then (getitem os ''namespace'') (\<lambda>namespace.
     and_then (getitem os ''port'') (\<lambda>os_port.
     and_then (getitem os ''secret-key'') (\<lambda>secret_key.
     and_then (getitem os ''secure'') (\<lambda>secure.
     and_then (getitem cfg ''log-archive-filename'') (\<lambda>log_filename.
     and_then (getitem cfg ''log-archive-prefix'') (\<lambda>log_prefix.
     and_then (getitem cfg ''auto-update-default-version'') (\<lambda>auto_update.
     and_then (getitem cfg ''cache-image'') (\<lambda>cache_image.
     and_then (getitem cfg ''cache-enabled'') (\<lambda>cache_enabled.
     and_then (getitem cfg ''runner-sa'') (\<lambda>runner_sa.
     and_then (getitem cfg ''init-connection-timeout'') (\<lambda>init_timeout.
     and_then (getitem viz ''service-name'') (\<lambda>viz_name.
     and_then (getitem viz ''service-port'') (\<lambda>viz_port.
     Inr (JObj
       [(''DBConfig'', JObj
           [(''ConMaxLifeTime'', JStr ''120s''),
            (''DBName'', JStr db_name),
            (''DriverName'', JStr ''mysql''),
            (''GroupConcatMaxLen'', JStr ''4194304''),
            (''Host'', JStr db_host),
            (''Password'', JStr db_password),
            (''Port'', JStr db_port),
            (''User'', JStr db_username)]),
        (''ObjectStoreConfig'', JObj
           [(''AccessKey'', JStr access_key),
            (''BucketName'', JStr bucket),
            (''Host'', JStr (service @ ''.'' @ namespace)),
            (''Multipart'', JObj [(''Disable'', JStr ''true'')]),
            (''PipelinePath'', JStr ''pipelines''),
            (''Port'', JStr os_port),
            (''Region'', JStr []),
            (''SecretAccessKey'', JStr secret_key),
            (''Secure'', JStr (lower secure))]),
        (''ARCHIVE_CONFIG_LOG_FILE_NAME'', JStr log_filename),
        (''ARCHIVE_CONFIG_LOG_PATH_PREFIX'', JStr log_prefix),
        (''AUTO_UPDATE_PIPELINE_DEFAULT_VERSION'', JStr (lower auto_update)),
        (''CACHE_IMAGE'', JStr cache_image),
        (''CACHE_NODE_RESTRICTIONS'', JStr ''false''),
        (''CacheEnabled'', JStr (lower cache_enabled)),
        (''DefaultPipelineRunnerServiceAccount'', JStr runner_sa),
        (''InitConnectionTimeout'', JStr init_timeout),
        (''KUBEFLOW_USERID_HEADER'', JStr ''kubeflow-userid''),
        (''KUBEFLOW_USERID_PREFIX'', JStr []),
        (''MULTIUSER'', JStr ''true''),
        (''ML_PIPELINE_VISUALIZATIONSERVER_SERVICE_HOST'', JStr viz_name),
        (''ML_PIPELINE_VISUALIZATIONSERVER_SERVICE_PORT'', JStr viz_port)])
     )))))))))))))))))))))"

definition generate_config :: "state \<Rightarrow> (string \<times> interface option) list \<Rightarrow> error + json" where
  "generate_config s ifaces =
     and_then (get_db_data s) (\<lambda>db_data.
     and_then (get_object_storage ifaces) (\<lambda>os.
     and_then (get_viz ifaces) (\<lambda>viz.
     config_json (config s) db_data os viz)))"

section \<open>Steps that write the unit status\<close>

definition check_container_connection :: "state \<Rightarrow> error + unit" where
  "check_container_connection s =
     (if \<not> can_connect s then Inl (ErrorWithStatus ''Pod startup is not complete'' Maintenance)
      else Inr ())"

definition upload_files_to_container :: "json \<Rightarrow> state \<Rightarrow> error option \<times> state" where
  "upload_files_to_container cfg s =
     (case check_container_connection s of
        Inl (ErrorWithStatus m t) \<Rightarrow> (Some (ErrorWithStatus m t), s\<lparr>status := Status t m\<rparr>)
      | Inl e \<Rightarrow> (Some e, s)
      | Inr u \<Rightarrow>
          (case push s SAMPLE_CONFIG of
             Some e \<Rightarrow> (Some e, s)
           | None \<Rightarrow>
               (case push s CONFIG_JSON of
                  Some e \<Rightarrow> (Some e, s)
                | None \<Rightarrow> (None, s))))"

text \<open>
  \<^verbatim>\<open>_send_info\<close>: the subscript raises \<^verbatim>\<open>KeyError\<close> for a missing name; what \<^verbatim>\<open>send_data\<close>
  writes goes to the peer and is not part of this unit's state.
\<close>

definition send_info :: "state \<Rightarrow> (string \<times> interface option) list \<Rightarrow> error option" where
  "send_info s ifaces =
     (case getitem ifaces ''kfp-api'' of
        Inl e \<Rightarrow> Some e
      | Inr i \<Rightarrow> None)"

definition check_and_report_k8s_conflict :: "nat \<Rightarrow> bool" where
  "check_and_report_k8s_conflict code = (code = 409)"

definition apply_k8s_resources :: "bool \<Rightarrow> state \<Rightarrow> error option \<times> state" where
  "apply_k8s_resources force_conflicts s =
     (let s1 = s\<lparr>status := Status Maintenance ''Creating K8S resources''\<rparr> in
      case k8s_apply s1 False of
        None \<Rightarrow> (None, s1\<lparr>status := Status Maintenance ''K8S resources created''\<rparr>)
      | Some code \<Rightarrow>
          (if check_and_report_k8s_conflict code \<and> force_conflicts then
             (let s2 = s1\<lparr>status := Status Maintenance ''Force applying K8S resources''\<rparr> in
              case k8s_apply s2 force_conflicts of
                None \<Rightarrow> (None, s2\<lparr>status := Status Maintenance ''K8S resources created''\<rparr>)
              | Some code' \<Rightarrow> (Some (ApiError code'), s2))
           else (Some (GenericCharmRuntimeError ''K8S resources creation failed''), s1)))"

text \<open>
  \<^verbatim>\<open>_check_status\<close>. A \<^verbatim>\<open>Container\<close> object is always true, so the \<^verbatim>\<open>if container\<close> branch is
  always taken.
\<close>

definition check_status :: "state \<Rightarrow> error option \<times> state" where
  "check_status s =
     (case check_leader s of
        Inl e \<Rightarrow> (Some e, s)
      | Inr u \<Rightarrow>
          (case get_check s of
             None \<Rightarrow>
               (Some (GenericCharmRuntimeError
                        ''Failed to run health check on workload container''), s)
           | Some check \<Rightarrow>
               (if check = DOWN then
                  (Some (ErrorWithStatus ''Workload failed health check'' Maintenance), s)
                else (None, s\<lparr>status := Status Active []\<rparr>))))"

section \<open>The reconciliation pipeline and the event handlers\<close>

text \<open>The body of the \<^verbatim>\<open>try\<close> of \<^verbatim>\<open>_on_event\<close>: the steps in order, up to the first exception.\<close>

definition pipeline :: "bool \<Rightarrow> state \<Rightarrow> error option \<times> state" where
  "pipeline force_conflicts s =
     (case check_leader s of
        Inl e \<Rightarrow> (Some e, s)
      | Inr u \<Rightarrow>
     (case get_interfaces s of
        Inl e \<Rightarrow> (Some e, s)
      | Inr ifaces \<Rightarrow>
     (case generate_config s ifaces of
        Inl e \<Rightarrow> (Some e, s)
      | Inr cfg \<Rightarrow>
     (case upload_files_to_container cfg s of
        (Some e, s1) \<Rightarrow> (Some e, s1)
      | (None, s1) \<Rightarrow>
     (case apply_k8s_resources force_conflicts s1 of
        (Some e, s2) \<Rightarrow> (Some e, s2)
      | (None, s2) \<Rightarrow>
     (case update_layer s2 of
        Some e \<Rightarrow> (Some e, s2)
      | None \<Rightarrow>
     (case send_info s2 ifaces of
        Some e \<Rightarrow> (Some e, s2)
      | None \<Rightarrow> (None, s2))))))))"

definition on_event :: "bool \<Rightarrow> state \<Rightarrow> error option \<times> state" where
  "on_event force_conflicts s =
     (case pipeline force_conflicts s of
        (Some (ErrorWithStatus m t), s') \<Rightarrow> (None, s'\<lparr>status := Status t m\<rparr>)
      | (Some e, s') \<Rightarrow> (Some e, s')
      | (None, s') \<Rightarrow> (None, s'\<lparr>status := Status Active []\<rparr>))"

definition on_install :: "state \<Rightarrow> error option \<times> state" where
  "on_install s = apply_k8s_resources False s"

definition on_upgrade :: "state \<Rightarrow> error option \<times> state" where
  "on_upgrade s = on_event True s"

definition on_remove :: "state \<Rightarrow> error option \<times> state" where
  "on_remove s =
     (let s1 = s\<lparr>status := Status Maintenance ''Removing K8S resources''\<rparr> in
      case k8s_delete s1 of
        None \<Rightarrow> (None, s1\<lparr>status := Status Maintenance ''K8S resources removed''\<rparr>)
      | Some code \<Rightarrow>
          (if code \<noteq> 404 then (Some (ApiError code), s1)
           else (None, s1\<lparr>status := Status Maintenance ''K8S resources removed''\<rparr>)))"

definition is_waiting_or_blocked :: "status \<Rightarrow> bool" where
  "is_waiting_or_blocked st = (case st of Status t m \<Rightarrow> t = Waiting \<or> t = Blocked)"

definition on_update_status :: "state \<Rightarrow> error option \<times> state" where
  "on_update_status s =
     (case on_event False s of
        (Some (ErrorWithStatus m t), s1) \<Rightarrow> (None, s1)
      | (Some e, s1) \<Rightarrow> (Some e, s1)
      | (None, s1) \<Rightarrow>
          (if is_waiting_or_blocked (status s1) then (None, s1)
           else (case check_status s1 of
                   (Some (ErrorWithStatus m t), s2) \<Rightarrow> (None, s2\<lparr>status := Status t m\<rparr>)
                 | (Some e, s2) \<Rightarrow> (Some e, s2)
                 | (None, s2) \<Rightarrow> (None, s2\<lparr>status := Status Active []\<rparr>))))"

definition on_mysql_relation :: "state \<Rightarrow> error option \<times> state" where
  "on_mysql_relation s =
     (case getitem_relations s ''mysql'' of
        Inl e \<Rightarrow> (Some e, s)
      | Inr mysql \<Rightarrow>
          (if length mysql > 1 then
             (Some (ErrorWithStatus (''Too many mysql relations. '' @ MYSQL_WARNING) Blocked), s)
           else
             (case model_get_relation s ''relational-db'' of
                Inr (Some relation) \<Rightarrow>
                  (None, s\<lparr>status := Status Blocked (UNBLOCK_MESSAGE @ '' See logs'')\<rparr>)
              | Inl (TooManyRelatedAppsError n) \<Rightarrow> (Some (TooManyRelatedAppsError n), s)
              | other \<Rightarrow>
                  on_event False
                    (s\<lparr>status := Status Maintenance (''Adding mysql relation. '' @ MYSQL_WARNING)\<rparr>))))"

definition on_mysql_relation_remove :: "state \<Rightarrow> error option \<times> state" where
  "on_mysql_relation_remove s =
     on_event False
       (s\<lparr>status := Status Maintenance (''Removing mysql relation. '' @ MYSQL_WARNING)\<rparr>)"

definition on_relational_db_relation :: "state \<Rightarrow> error option \<times> state" where
  "on_relational_db_relation s =
     (case model_get_relation s ''mysql'' of
        Inr (Some relation) \<Rightarrow>
          (None, s\<lparr>status := Status Blocked (UNBLOCK_MESSAGE @ '' See logs'')\<rparr>)
      | Inl (TooManyRelatedAppsError n) \<Rightarrow> (Some (TooManyRelatedAppsError n), s)
      | other \<Rightarrow>
          on_event False (s\<lparr>status := Status Maintenance ''Adding relational-db relation''\<rparr>))"

definition on_relational_db_relation_remove :: "state \<Rightarrow> error option \<times> state" where
  "on_relational_db_relation_remove s =
     on_event False (s\<lparr>status := Status Maintenance ''Removing relational-db relation''\<rparr>)"

text \<open>The events the charm observes in \<^verbatim>\<open>__init__\<close>, and the handler registered for each.\<close>

datatype event =
    leader_elected
  | config_changed
  | pebble_ready
  | install
  | upgrade_charm
  | remove
  | update_status
  | relation_joined string
  | relation_changed string
  | relation_departed string
  | relation_broken string
  | database_created
  | endpoints_changed

definition observe :: "event \<Rightarrow> (state \<Rightarrow> error option \<times> state) option" where
  "observe ev =
     (case ev of
        leader_elected \<Rightarrow> Some (on_event False)
      | config_changed \<Rightarrow> Some (on_event False)
      | pebble_ready \<Rightarrow> Some (on_event False)
      | install \<Rightarrow> Some on_install
      | upgrade_charm \<Rightarrow> Some on_upgrade
      | remove \<Rightarrow> Some on_remove
      | update_status \<Rightarrow> Some on_update_status
      | relation_joined n \<Rightarrow>
          (if n = ''mysql'' then Some on_mysql_relation
           else if n = ''relational-db'' then Some on_relational_db_relation
           else None)
      | relation_changed n \<Rightarrow>
          (if n = ''object-storage'' \<or> n = ''kfp-viz'' \<or> n = ''kfp-api''
           then Some (on_event False)
           else if n = ''mysql'' then Some on_mysql_relation
           else if n = ''relational-db'' then Some on_relational_db_relation
           else None)
      | relation_departed n \<Rightarrow>
          (if n = ''mysql'' then Some on_mysql_relation_remove
           else if n = ''relational-db'' then Some on_relational_db_relation_remove
           else None)
      | relation_broken n \<Rightarrow>
          (if n = ''mysql'' then Some on_mysql_relation_remove
           else if n = ''relational-db'' then Some on_relational_db_relation_remove
           else None)
      | database_created \<Rightarrow> Some on_relational_db_relation
      | endpoints_changed \<Rightarrow> Some on_relational_db_relation)"

section \<open>Predicates on the relation state and sample deployments\<close>

text \<open>A relation name with no relation under it: undeclared, or declared and unrelated.\<close>

definition relation_absent :: "state \<Rightarrow> string \<Rightarrow> bool" where
  "relation_absent s name = (relations s name = None \<or> relations s name = Some [])"

text \<open>
  The mysql relation is absent, or it is there and has no remote unit, or the first remote
  unit's data bag is empty.
\<close>

definition mysql_absent_or_empty :: "state \<Rightarrow> bool" where
  "mysql_absent_or_empty s =
     (case relations s ''mysql'' of
        None \<Rightarrow> True
      | Some [] \<Rightarrow> True
      | Some [r] \<Rightarrow> (case units r of [] \<Rightarrow> True | (u, d) # us \<Rightarrow> d = [])
      | Some (r # r' # rs) \<Rightarrow> False)"

text \<open>The four keys \<^verbatim>\<open>_get_mysql_data\<close> reads from the mysql relation data.\<close>

definition mysql_keys :: "string list" where
  "mysql_keys = [''database'', ''root_password'', ''host'', ''port'']"

definition mysql_relation :: relation where
  "mysql_relation =
     \<lparr>units = [(''mysql/0'',
        [(''database'', ''mlpipeline''), (''root_password'', ''pw''),
         (''host'', ''mysql.kubeflow''), (''port'', ''3306'')])]\<rparr>"

definition relational_db_relation :: relation where
  "relational_db_relation = \<lparr>units = [(''mysql-k8s/0'', [])]\<rparr>"

definition modern_bag :: databag where
  "modern_bag = [(''endpoints'', ''mysql-k8s-primary:3306''), (''password'', ''s3cret''),
                 (''username'', ''relation-7'')]"

text \<open>
  A leader unit related to mysql (complete data), object-storage and kfp-viz, with a
  reachable container and a cluster that accepts every call.
\<close>

definition legacy_deployment :: state where
  "legacy_deployment =
     \<lparr>is_leader = True,
      relations = [''mysql'' \<mapsto> [mysql_relation], ''relational-db'' \<mapsto> [],
                   ''object-storage'' \<mapsto> [], ''kfp-viz'' \<mapsto> [], ''kfp-api'' \<mapsto> []],
      fetch_relation_data = [],
      interfaces = Interfaces
        [(''object-storage'', Some (SerializedDataInterface (Data
            [[(''access-key'', ''minio''), (''namespace'', ''kubeflow''), (''port'', ''9000''),
              (''secret-key'', ''minio123''), (''secure'', ''False''),
              (''service'', ''minio'')]]))),
         (''kfp-viz'', Some (SerializedDataInterface (Data
            [[(''service-name'', ''kfp-viz.kubeflow''), (''service-port'', ''8888'')]]))),
         (''kfp-api'', None)],
      config =
        [(''object-store-bucket-name'', ''mlpipeline''),
         (''log-archive-filename'', ''main.log''),
         (''log-archive-prefix'', ''/artifacts''),
         (''auto-update-default-version'', ''True''),
         (''cache-image'', ''gcr.io/google-containers/busybox''),
         (''cache-enabled'', ''True''),
         (''runner-sa'', ''default-editor''),
         (''init-connection-timeout'', ''6m''),
         (''grpc-port'', ''8887''),
         (''http-port'', ''8888'')],
      can_connect = True,
      push = (\<lambda>path. None),
      k8s_apply = (\<lambda>force. None),
      k8s_delete = None,
      update_layer = None,
      get_check = Some UP,
      status = Status Maintenance []\<rparr>"

text \<open>The same unit with the relational-db relation added beside mysql.\<close>

definition both_databases :: state where
  "both_databases =
     legacy_deployment
       \<lparr>relations := (relations legacy_deployment)(''relational-db'' \<mapsto> [relational_db_relation]),
        fetch_relation_data := [(7, modern_bag)]\<rparr>"

text \<open>The same unit with only the relational-db relation.\<close>

definition modern_deployment :: state where
  "modern_deployment =
     legacy_deployment
       \<lparr>relations := (relations legacy_deployment)
          (''mysql'' \<mapsto> [], ''relational-db'' \<mapsto> [relational_db_relation]),
        fetch_relation_data := [(7, modern_bag)]\<rparr>"

text \<open>The same unit with no database relation at all.\<close>

definition no_database :: state where
  "no_database =
     legacy_deployment\<lparr>relations := (relations legacy_deployment)(''mysql'' \<mapsto> [])\<rparr>"

text \<open>The mysql relation is there, and its unit has published nothing yet.\<close>

definition empty_mysql_relation :: relation where
  "empty_mysql_relation = \<lparr>units = [(''mysql/0'', [])]\<rparr>"

definition empty_legacy_bag :: state where
  "empty_legacy_bag =
     legacy_deployment
       \<lparr>relations := (relations legacy_deployment)(''mysql'' \<mapsto> [empty_mysql_relation])\<rparr>"

definition empty_legacy_beside_modern :: state where
  "empty_legacy_beside_modern =
     modern_deployment
       \<lparr>relations := (relations modern_deployment)(''mysql'' \<mapsto> [empty_mysql_relation])\<rparr>"

text \<open>The mysql unit has published its host only.\<close>

definition partial_legacy_bag :: state where
  "partial_legacy_bag =
     legacy_deployment
       \<lparr>relations := (relations legacy_deployment)
          (''mysql'' \<mapsto> [\<lparr>units = [(''mysql/0'', [(''host'', ''mysql.kubeflow'')])]\<rparr>])\<rparr>"

text \<open>The workload container cannot be reached.\<close>

definition unreachable_container :: state where
  "unreachable_container = legacy_deployment\<lparr>can_connect := False\<rparr>"

text \<open>The database library lists two endpoints, separated by a comma.\<close>

definition two_endpoints :: state where
  "two_endpoints =
     modern_deployment
       \<lparr>fetch_relation_data :=
          [(7, [(''endpoints'', ''mysql-k8s-0.mysql:3306,mysql-k8s-1.mysql:3306''),
                (''password'', ''s3cret''), (''username'', ''relation-7'')])]\<rparr>"

text \<open>The health check of the workload is down.\<close>

definition failing_health_check :: state where
  "failing_health_check = legacy_deployment\<lparr>get_check := Some DOWN\<rparr>"

text \<open>Two mysql applications are related at once.\<close>

definition two_mysql_relations :: state where
  "two_mysql_relations =
     legacy_deployment
       \<lparr>relations := (relations legacy_deployment)
          (''mysql'' \<mapsto> [mysql_relation, mysql_relation])\<rparr>"

section \<open>Evaluation rules\<close>

lemmas sample_defs = legacy_deployment_def both_databases_def modern_deployment_def
  no_database_def mysql_relation_def relational_db_relation_def modern_bag_def
  empty_mysql_relation_def empty_legacy_bag_def empty_legacy_beside_modern_def
  partial_legacy_bag_def unreachable_container_def two_endpoints_def
  failing_health_check_def two_mysql_relations_def

lemmas dict_defs = getitem_def setitem_def and_then_def

lemmas db_defs = get_db_data_def get_mysql_data_def get_relational_db_data_def
  get_db_relation_def model_get_relation_def mysql_db_data_def relational_db_entry_def
  database_name_def

lemmas pipeline_defs = on_event_def pipeline_def check_leader_def get_interfaces_def
  generate_config_def get_object_storage_def get_viz_def validate_sdi_interface_def
  config_json_def upload_files_to_container_def check_container_connection_def
  apply_k8s_resources_def send_info_def SAMPLE_CONFIG_def CONFIG_JSON_def
  check_and_report_k8s_conflict_def lower_def lower_char_def

lemmas message_defs = MYSQL_WARNING_def UNBLOCK_MESSAGE_def

section \<open>The legacy path\<close>

lemma mysql_db_data_complete:
  assumes "map_of d ''database'' = Some a" and "map_of d ''root_password'' = Some b"
    and "map_of d ''host'' = Some c" and "map_of d ''port'' = Some p"
  shows "mysql_db_data d =
     Inr [(''db_name'', a), (''db_password'', b), (''db_username'', ''root''),
          (''db_host'', c), (''db_port'', p)]"
  using assms by (simp add: mysql_db_data_def dict_defs)

lemma mysql_db_data_missing:
  assumes "k \<in> set mysql_keys" and "map_of d k = None"
  shows "\<exists>k'. mysql_db_data d = Inl (KeyError k')"
  using assms
  by (auto simp add: mysql_keys_def mysql_db_data_def dict_defs Let_def split: option.splits)

lemma mysql_db_data_errors:
  assumes "mysql_db_data d = Inl e"
  shows "\<exists>k. e = KeyError k"
  using assms
  by (auto simp add: mysql_db_data_def dict_defs Let_def split: option.splits)

lemma get_mysql_data_one_relation:
  assumes "relations s ''mysql'' = Some [r]" and "units r = (u, d) # us"
  shows "get_mysql_data s =
     (case mysql_db_data d of
        Inr db_data \<Rightarrow> Inr db_data
      | Inl e \<Rightarrow>
          (if d = [] then
             Inl (GenericCharmRuntimeError ''Database relation mysql is not established or empty'')
           else Inl (ErrorWithStatus
                       ''Incorrect/incomplete data found in relation mysql. See logs'' Waiting)))"
proof (cases "mysql_db_data d")
  case (Inl e)
  then obtain k where "e = KeyError k"
    using mysql_db_data_errors by blast
  with Inl assms show ?thesis
    by (simp add: get_mysql_data_def get_db_relation_def model_get_relation_def)
next
  case (Inr db_data)
  with assms show ?thesis
    by (simp add: get_mysql_data_def get_db_relation_def model_get_relation_def)
qed

lemma get_mysql_data_absent_or_empty:
  assumes "mysql_absent_or_empty s"
  shows "get_mysql_data s =
     Inl (GenericCharmRuntimeError ''Database relation mysql is not established or empty'')"
proof (cases "relations s ''mysql''")
  case None
  then show ?thesis
    by (simp add: get_mysql_data_def get_db_relation_def model_get_relation_def)
next
  case (Some rs)
  show ?thesis
  proof (cases rs)
    case Nil
    with Some show ?thesis
      by (simp add: get_mysql_data_def get_db_relation_def model_get_relation_def)
  next
    case (Cons r rs')
    with Some assms have one: "rs' = []"
      by (cases rs') (simp_all add: mysql_absent_or_empty_def)
    show ?thesis
    proof (cases "units r")
      case Nil
      with Some Cons one show ?thesis
        by (simp add: get_mysql_data_def get_db_relation_def model_get_relation_def)
    next
      case (Cons ud us)
      obtain u d where ud: "ud = (u, d)" by (cases ud)
      with Some \<open>rs = r # rs'\<close> one Cons assms have "d = []"
        by (simp add: mysql_absent_or_empty_def)
      then have "mysql_db_data d = Inl (KeyError ''database'')"
        by (simp add: mysql_db_data_def dict_defs)
      with Some \<open>rs = r # rs'\<close> one Cons ud \<open>d = []\<close> show ?thesis
        by (simp add: get_mysql_data_one_relation)
    qed
  qed
qed

lemma get_mysql_data_present:
  assumes "\<not> mysql_absent_or_empty s"
  shows "get_mysql_data s \<noteq> Inl (GenericCharmRuntimeError m)"
proof -
  from assms obtain rs where rel: "relations s ''mysql'' = Some rs" and "rs \<noteq> []"
    by (cases "relations s ''mysql''"; cases "the (relations s ''mysql'')")
       (auto simp add: mysql_absent_or_empty_def)
  then obtain r rs' where rs: "rs = r # rs'" by (cases rs) auto
  show ?thesis
  proof (cases rs')
    case Nil
    with assms rel rs obtain u d us where un: "units r = (u, d) # us" and "d \<noteq> []"
      by (cases "units r") (auto simp add: mysql_absent_or_empty_def)
    with rel rs Nil show ?thesis
      by (simp add: get_mysql_data_one_relation split: sum.splits)
  next
    case (Cons r' rs'')
    with rel rs show ?thesis
      by (simp add: get_mysql_data_def get_db_relation_def model_get_relation_def)
  qed
qed

text \<open>
  C9. With exactly one mysql relation whose first unit has published the four keys
  database, root_password, host and port, database resolution returns the complete record of
  five parameters, the username being the constant root; the relational-db relation is never
  consulted, so this holds in particular when it is absent.
\<close>

theorem legacy_complete_yields_root_record:
  assumes "relations s ''mysql'' = Some [r]" and "units r = (u, d) # us"
    and "map_of d ''database'' = Some a" and "map_of d ''root_password'' = Some b"
    and "map_of d ''host'' = Some c" and "map_of d ''port'' = Some p"
  shows "get_db_data s =
     Inr [(''db_name'', a), (''db_password'', b), (''db_username'', ''root''),
          (''db_host'', c), (''db_port'', p)]"
  using assms(1,2) mysql_db_data_complete[OF assms(3-6)]
  by (simp add: get_db_data_def get_mysql_data_one_relation)

theorem legacy_complete_yields_root_record_witness:
  "relation_absent legacy_deployment ''relational-db'' \<and>
   get_db_data legacy_deployment =
     Inr [(''db_name'', ''mlpipeline''), (''db_password'', ''pw''), (''db_username'', ''root''),
          (''db_host'', ''mysql.kubeflow''), (''db_port'', ''3306'')]"
  using legacy_complete_yields_root_record[of legacy_deployment mysql_relation "''mysql/0''"
      "[(''database'', ''mlpipeline''), (''root_password'', ''pw''),
        (''host'', ''mysql.kubeflow''), (''port'', ''3306'')]" "[]"
      "''mlpipeline''" "''pw''" "''mysql.kubeflow''" "''3306''"]
  by (simp add: sample_defs relation_absent_def)

text \<open>
  C4, as the claim states it, fails: a mysql relation whose unit has published nothing has
  every required key missing, the relational-db relation is absent, and resolution is
  Blocked, not Waiting.
\<close>

theorem legacy_empty_bag_blocked:
  "relations empty_legacy_bag ''mysql'' = Some [empty_mysql_relation] \<and>
   units empty_mysql_relation = [(''mysql/0'', [])] \<and>
   relation_absent empty_legacy_bag ''relational-db'' \<and>
   get_db_data empty_legacy_bag =
     Inl (ErrorWithStatus ''Please add required database relation: eg. relational-db'' Blocked)"
  by (simp add: sample_defs db_defs dict_defs relation_absent_def)

text \<open>
  C4, amended. With exactly one mysql relation whose first unit has published a non-empty
  data bag that lacks at least one of database, root_password, host and port, database
  resolution fails with Waiting (never Blocked), whatever the relational-db relation holds.
\<close>

theorem legacy_incomplete_waits:
  assumes "relations s ''mysql'' = Some [r]" and "units r = (u, d) # us" and "d \<noteq> []"
    and "k \<in> set mysql_keys" and "map_of d k = None"
  shows "get_db_data s =
     Inl (ErrorWithStatus ''Incorrect/incomplete data found in relation mysql. See logs''
            Waiting)"
proof -
  obtain k' where "mysql_db_data d = Inl (KeyError k')"
    using mysql_db_data_missing[OF assms(4,5)] by blast
  with assms(1-3) show ?thesis
    by (simp add: get_db_data_def get_mysql_data_one_relation)
qed

theorem legacy_incomplete_waits_witness:
  "get_db_data partial_legacy_bag =
     Inl (ErrorWithStatus ''Incorrect/incomplete data found in relation mysql. See logs''
            Waiting)"
  using legacy_incomplete_waits[of partial_legacy_bag
      "\<lparr>units = [(''mysql/0'', [(''host'', ''mysql.kubeflow'')])]\<rparr>" "''mysql/0''"
      "[(''host'', ''mysql.kubeflow'')]" "[]" "''port''"]
  by (simp add: sample_defs mysql_keys_def)

section \<open>Resolution order\<close>

text \<open>
  C2, as the claim states it, fails: with a mysql relation that is present but whose unit's
  data bag is empty, resolution goes on to the relational-db relation and returns its
  parameters.
\<close>

theorem empty_legacy_probes_modern:
  "relations empty_legacy_beside_modern ''mysql'' = Some [empty_mysql_relation] \<and>
   units empty_mysql_relation = [(''mysql/0'', [])] \<and>
   get_db_data empty_legacy_beside_modern =
     Inr [(''db_name'', ''mlpipeline''), (''db_password'', ''s3cret''),
          (''db_username'', ''relation-7''), (''db_host'', ''mysql-k8s-primary''),
          (''db_port'', ''3306'')]"
  by (simp add: sample_defs db_defs dict_defs)

text \<open>
  C2, amended. Resolution reads the mysql relation first. It goes on to the relational-db
  relation exactly when the mysql relation is absent, has no remote unit, or has a first
  unit whose data bag is empty; in every other state the outcome of the mysql path is the
  outcome of resolution. When the mysql path gives way and the relational-db relation is
  absent as well, resolution fails Blocked with the message asking for a database relation;
  in particular so when both relations are absent.
\<close>

theorem resolution_order:
  "get_db_data s =
     (if mysql_absent_or_empty s then
        (if relation_absent s ''relational-db'' then
           Inl (ErrorWithStatus ''Please add required database relation: eg. relational-db''
                  Blocked)
         else get_relational_db_data s)
      else get_mysql_data s)"
proof (cases "mysql_absent_or_empty s")
  case True
  have absent: "get_relational_db_data s =
      Inl (GenericCharmRuntimeError ''Database relation relational-db is not established or empty'')"
    if "relation_absent s ''relational-db''"
    using that
    by (auto simp add: relation_absent_def get_relational_db_data_def get_db_relation_def
        model_get_relation_def)
  have present: "get_relational_db_data s \<noteq> Inl (GenericCharmRuntimeError m)"
    if "\<not> relation_absent s ''relational-db''" for m
  proof -
    have loop: "relational_db_loop vals acc \<noteq> Inl (GenericCharmRuntimeError m)" for vals acc
    proof (induction vals arbitrary: acc)
      case Nil
      show ?case by simp
    next
      case (Cons v vs)
      have "relational_db_entry v acc \<noteq> Inl (GenericCharmRuntimeError m)"
        by (auto simp add: relational_db_entry_def dict_defs Let_def
            split: option.splits list.splits)
      with Cons show ?case
        by (auto split: sum.splits error.splits)
    qed
    from that obtain r rs where "relations s ''relational-db'' = Some (r # rs)"
      by (cases "relations s ''relational-db''"; cases "the (relations s ''relational-db'')")
         (auto simp add: relation_absent_def)
    then show ?thesis
      using loop[of "map snd (fetch_relation_data s)" "[]"]
      by (cases rs)
         (auto simp add: get_relational_db_data_def get_db_relation_def model_get_relation_def
          split: sum.splits)
  qed
  show ?thesis
  proof (cases "relation_absent s ''relational-db''")
    case True
    with \<open>mysql_absent_or_empty s\<close> absent show ?thesis
      by (simp add: get_db_data_def get_mysql_data_absent_or_empty)
  next
    case False
    with \<open>mysql_absent_or_empty s\<close> present show ?thesis
      by (auto simp add: get_db_data_def get_mysql_data_absent_or_empty
          split: sum.splits error.splits)
  qed
next
  case False
  then have "get_mysql_data s \<noteq> Inl (GenericCharmRuntimeError m)" for m
    by (rule get_mysql_data_present)
  with False show ?thesis
    by (auto simp add: get_db_data_def split: sum.splits error.splits)
qed

theorem resolution_order_witness:
  "relation_absent no_database ''mysql'' \<and> relation_absent no_database ''relational-db'' \<and>
   get_db_data no_database =
     Inl (ErrorWithStatus ''Please add required database relation: eg. relational-db'' Blocked)"
  using resolution_order[of no_database]
  by (simp add: sample_defs relation_absent_def mysql_absent_or_empty_def)

section \<open>The modern path\<close>

lemma str_split_no_separator:
  assumes "sep \<notin> set p"
  shows "str_split p sep = [p]"
  using assms by (induction p) auto

lemma str_split_one_separator:
  assumes "sep \<notin> set h" and "sep \<notin> set p"
  shows "str_split (h @ sep # p) sep = [h, p]"
  using assms by (induction h) (auto simp add: str_split_no_separator)

lemma relational_db_entry_host_port:
  assumes "map_of val ''password'' = Some pw" and "map_of val ''username'' = Some un"
    and "map_of val ''endpoints'' = Some (h @ CHR '':'' # p)"
    and "CHR '':'' \<notin> set h" and "CHR '':'' \<notin> set p"
  shows "relational_db_entry val [] =
     Inr [(''db_name'', ''mlpipeline''), (''db_password'', pw), (''db_username'', un),
          (''db_host'', h), (''db_port'', p)]"
  using assms
  by (simp add: relational_db_entry_def dict_defs database_name_def str_split_one_separator)

text \<open>
  C7. The claim is what the handler of \<^verbatim>\<open>_get_relational_db_data\<close> sets out to do
  (incorrect or incomplete data is to give Waiting), and an endpoints value with one colon
  is split into host and port (\<open>relational_db_entry_host_port\<close>). The code misses the
  claim: an endpoints value that does not split into exactly two pieces raises
  \<^verbatim>\<open>ValueError\<close> from the unpacking, which the \<^verbatim>\<open>except KeyError\<close> clause does not catch and
  no caller catches either, so the hook aborts and no Waiting status is set.
\<close>

theorem two_endpoints_raise_value_error:
  "get_relational_db_data two_endpoints = Inl ValueError \<and>
   get_db_data two_endpoints = Inl ValueError \<and>
   on_relational_db_relation two_endpoints =
     (Some ValueError,
      two_endpoints\<lparr>status := Status Maintenance ''Adding relational-db relation''\<rparr>)"
  by (simp add: sample_defs on_relational_db_relation_def pipeline_defs db_defs dict_defs)

section \<open>Mutual exclusion of the two database relations\<close>

text \<open>
  C1, as the claim states it, fails: with both relations present and the mysql data
  complete, database resolution returns the mysql parameters, and a reconciliation pass that
  does not start from a joined or changed event of a database relation ends Active.
\<close>

theorem both_present_resolves_legacy:
  "relations both_databases ''mysql'' = Some [mysql_relation] \<and>
   relations both_databases ''relational-db'' = Some [relational_db_relation] \<and>
   get_db_data both_databases =
     Inr [(''db_name'', ''mlpipeline''), (''db_password'', ''pw''), (''db_username'', ''root''),
          (''db_host'', ''mysql.kubeflow''), (''db_port'', ''3306'')] \<and>
   on_event False both_databases = (None, both_databases\<lparr>status := Status Active []\<rparr>)"
  by (simp add: sample_defs pipeline_defs db_defs dict_defs)

text \<open>
  C1, amended. Whenever both relations are present (one relation under each name), the
  handler of the joined and changed events of either database relation sets Blocked with
  the fixed conflict message and returns, regardless of the data of either relation and of
  everything else in the state. Database resolution itself (\<^verbatim>\<open>_get_db_data\<close>) makes no such
  check.
\<close>

theorem both_present_handlers_blocked:
  assumes "relations s ''mysql'' = Some [m]" and "relations s ''relational-db'' = Some [r]"
  shows "on_mysql_relation s =
           (None, s\<lparr>status := Status Blocked
                      ''Remove deprecated mysql relation to unblock. See logs''\<rparr>) \<and>
         on_relational_db_relation s =
           (None, s\<lparr>status := Status Blocked
                      ''Remove deprecated mysql relation to unblock. See logs''\<rparr>)"
  using assms
  by (simp add: on_mysql_relation_def on_relational_db_relation_def getitem_relations_def
      model_get_relation_def message_defs)

theorem both_present_handlers_blocked_witness:
  "on_mysql_relation both_databases =
     (None, both_databases\<lparr>status := Status Blocked
                ''Remove deprecated mysql relation to unblock. See logs''\<rparr>) \<and>
   on_relational_db_relation both_databases =
     (None, both_databases\<lparr>status := Status Blocked
                ''Remove deprecated mysql relation to unblock. See logs''\<rparr>)"
  using both_present_handlers_blocked[of both_databases mysql_relation relational_db_relation]
  by (simp add: sample_defs)

text \<open>
  C3, as the claim states it, fails: the handlers of the departed and broken events make no
  mutual-exclusion check. With both relations present they run the pipeline, which here
  ends Active.
\<close>

theorem departed_and_broken_skip_precheck:
  "observe (relation_departed ''mysql'') = Some on_mysql_relation_remove \<and>
   observe (relation_broken ''relational-db'') = Some on_relational_db_relation_remove \<and>
   relations both_databases ''mysql'' = Some [mysql_relation] \<and>
   relations both_databases ''relational-db'' = Some [relational_db_relation] \<and>
   on_mysql_relation_remove both_databases =
     (None, both_databases\<lparr>status := Status Active []\<rparr>) \<and>
   on_relational_db_relation_remove both_databases =
     (None, both_databases\<lparr>status := Status Active []\<rparr>)"
  by (simp add: observe_def on_mysql_relation_remove_def on_relational_db_relation_remove_def
      sample_defs pipeline_defs db_defs dict_defs)

text \<open>
  C3, amended. The joined and changed events of either database relation (and the database
  library's created and endpoints-changed events, which go to the relational-db handler)
  go to a handler whose mutual-exclusion check comes before any data is fetched: it looks
  at the other database relation first. If exactly one relation is present under the other
  name, the handler sets Blocked with the conflict message and returns without running the
  pipeline; if none is present (or the name is not declared), it sets Maintenance and runs
  the pipeline; if more than one is present, the lookup raises
  \<^verbatim>\<open>TooManyRelatedAppsError\<close>, which escapes with the status unchanged. The mysql handler
  checks before all this that there is not more than one mysql relation; if there is, it
  raises an error carrying Blocked that escapes with the status unchanged (and an
  undeclared mysql name is a \<^verbatim>\<open>KeyError\<close>). The departed and broken events of either
  relation go to a handler with no such check: it sets Maintenance and always runs the
  pipeline.
\<close>

theorem db_relation_event_precheck:
  "(ev \<in> {relation_joined ''mysql'', relation_changed ''mysql''} \<longrightarrow>
      observe ev = Some on_mysql_relation \<and>
      on_mysql_relation s =
        (case relations s ''mysql'' of
           None \<Rightarrow> (Some (KeyError ''mysql''), s)
         | Some ms \<Rightarrow>
             (if 1 < length ms then
                (Some (ErrorWithStatus
                         ''Too many mysql relations. Relation mysql is deprecated.'' Blocked),
                 s)
              else
                (case relations s ''relational-db'' of
                   Some [r] \<Rightarrow>
                     (None, s\<lparr>status := Status Blocked
                                ''Remove deprecated mysql relation to unblock. See logs''\<rparr>)
                 | Some (r # r' # rs) \<Rightarrow>
                     (Some (TooManyRelatedAppsError ''relational-db''), s)
                 | _ \<Rightarrow>
                     on_event False
                       (s\<lparr>status := Status Maintenance
                             ''Adding mysql relation. Relation mysql is deprecated.''\<rparr>))))) \<and>
   (ev \<in> {relation_joined ''relational-db'', relation_changed ''relational-db'',
           database_created, endpoints_changed} \<longrightarrow>
      observe ev = Some on_relational_db_relation \<and>
      on_relational_db_relation s =
        (case relations s ''mysql'' of
           Some [m] \<Rightarrow>
             (None, s\<lparr>status := Status Blocked
                        ''Remove deprecated mysql relation to unblock. See logs''\<rparr>)
         | Some (m # m' # ms) \<Rightarrow> (Some (TooManyRelatedAppsError ''mysql''), s)
         | _ \<Rightarrow>
             on_event False
               (s\<lparr>status := Status Maintenance ''Adding relational-db relation''\<rparr>))) \<and>
   (ev \<in> {relation_departed ''mysql'', relation_broken ''mysql''} \<longrightarrow>
      observe ev = Some on_mysql_relation_remove \<and>
      on_mysql_relation_remove s =
        on_event False
          (s\<lparr>status := Status Maintenance
                ''Removing mysql relation. Relation mysql is deprecated.''\<rparr>)) \<and>
   (ev \<in> {relation_departed ''relational-db'', relation_broken ''relational-db''} \<longrightarrow>
      observe ev = Some on_relational_db_relation_remove \<and>
      on_relational_db_relation_remove s =
        on_event False (s\<lparr>status := Status Maintenance ''Removing relational-db relation''\<rparr>))"
proof -
  have legacy: "on_mysql_relation s =
      (case relations s ''mysql'' of
         None \<Rightarrow> (Some (KeyError ''mysql''), s)
       | Some ms \<Rightarrow>
           (if 1 < length ms then
              (Some (ErrorWithStatus
                       ''Too many mysql relations. Relation mysql is deprecated.'' Blocked),
               s)
            else
              (case relations s ''relational-db'' of
                 Some [r] \<Rightarrow>
                   (None, s\<lparr>status := Status Blocked
                              ''Remove deprecated mysql relation to unblock. See logs''\<rparr>)
               | Some (r # r' # rs) \<Rightarrow>
                   (Some (TooManyRelatedAppsError ''relational-db''), s)
               | _ \<Rightarrow>
                   on_event False
                     (s\<lparr>status := Status Maintenance
                           ''Adding mysql relation. Relation mysql is deprecated.''\<rparr>))))"
    by (simp add: on_mysql_relation_def getitem_relations_def model_get_relation_def
        message_defs split: option.splits list.splits)
  have modern: "on_relational_db_relation s =
      (case relations s ''mysql'' of
         Some [m] \<Rightarrow>
           (None, s\<lparr>status := Status Blocked
                      ''Remove deprecated mysql relation to unblock. See logs''\<rparr>)
       | Some (m # m' # ms) \<Rightarrow> (Some (TooManyRelatedAppsError ''mysql''), s)
       | _ \<Rightarrow>
           on_event False
             (s\<lparr>status := Status Maintenance ''Adding relational-db relation''\<rparr>))"
    by (simp add: on_relational_db_relation_def model_get_relation_def message_defs
        split: option.splits list.splits)
  have removed: "on_mysql_relation_remove s =
      on_event False
        (s\<lparr>status := Status Maintenance
              ''Removing mysql relation. Relation mysql is deprecated.''\<rparr>)"
    by (simp add: on_mysql_relation_remove_def message_defs)
  have observed:
    "ev \<in> {relation_joined ''mysql'', relation_changed ''mysql''} \<Longrightarrow>
       observe ev = Some on_mysql_relation"
    "ev \<in> {relation_joined ''relational-db'', relation_changed ''relational-db'',
            database_created, endpoints_changed} \<Longrightarrow>
       observe ev = Some on_relational_db_relation"
    "ev \<in> {relation_departed ''mysql'', relation_broken ''mysql''} \<Longrightarrow>
       observe ev = Some on_mysql_relation_remove"
    "ev \<in> {relation_departed ''relational-db'', relation_broken ''relational-db''} \<Longrightarrow>
       observe ev = Some on_relational_db_relation_remove"
    by (auto simp add: observe_def)
  show ?thesis
    using legacy modern removed observed
    by (simp add: on_relational_db_relation_remove_def)
qed

theorem db_relation_event_precheck_witness:
  "observe (relation_joined ''relational-db'') = Some on_relational_db_relation \<and>
   on_relational_db_relation both_databases =
     (None, both_databases\<lparr>status := Status Blocked
                ''Remove deprecated mysql relation to unblock. See logs''\<rparr>) \<and>
   on_relational_db_relation two_mysql_relations =
     (Some (TooManyRelatedAppsError ''mysql''), two_mysql_relations) \<and>
   observe (relation_changed ''mysql'') = Some on_mysql_relation \<and>
   on_mysql_relation legacy_deployment =
     (None, legacy_deployment\<lparr>status := Status Active []\<rparr>) \<and>
   on_mysql_relation two_mysql_relations =
     (Some (ErrorWithStatus ''Too many mysql relations. Relation mysql is deprecated.''
              Blocked), two_mysql_relations)"
proof -
  have "on_event False
          (legacy_deployment\<lparr>status := Status Maintenance
             ''Adding mysql relation. Relation mysql is deprecated.''\<rparr>) =
        (None, legacy_deployment\<lparr>status := Status Active []\<rparr>)"
    by (simp add: sample_defs pipeline_defs db_defs dict_defs)
  then show ?thesis
    using db_relation_event_precheck[of "relation_joined ''relational-db''" both_databases]
      db_relation_event_precheck[of "relation_joined ''relational-db''" two_mysql_relations]
      db_relation_event_precheck[of "relation_changed ''mysql''" legacy_deployment]
      db_relation_event_precheck[of "relation_changed ''mysql''" two_mysql_relations]
    by (simp add: sample_defs)
qed

section \<open>The structured-interface validator\<close>

text \<open>
  C5, as the claim states it, fails: a relation whose first record is empty is rejected
  with Blocked, not Waiting.
\<close>

theorem empty_first_record_blocked:
  "validate_sdi_interface
     [(''object-storage'', Some (SerializedDataInterface (Data [[]])))] ''object-storage'' None =
   Inl (ErrorWithStatus ''Found empty relation data for object-storage'' Blocked)"
  by (simp add: validate_sdi_interface_def)

text \<open>
  C5, amended. For a relation validated through the structured-interface validator whose
  interface object exists and passes the schema check: if no data has been exchanged yet,
  validation fails with Waiting; if the first record is empty, it fails with Blocked.
\<close>

theorem sdi_no_data_waits_empty_record_blocks:
  assumes "map_of ifaces n = Some (Some (SerializedDataInterface (Data ds)))"
  shows "(ds = [] \<longrightarrow>
            validate_sdi_interface ifaces n dflt =
              Inl (ErrorWithStatus (''Waiting for '' @ n @ '' relation data'') Waiting)) \<and>
         (\<forall>others. ds = [] # others \<longrightarrow>
            validate_sdi_interface ifaces n dflt =
              Inl (ErrorWithStatus (''Found empty relation data for '' @ n) Blocked))"
  using assms by (simp add: validate_sdi_interface_def)

theorem sdi_no_data_waits_empty_record_blocks_witness:
  "validate_sdi_interface
     [(''kfp-viz'', Some (SerializedDataInterface (Data [])))] ''kfp-viz'' None =
   Inl (ErrorWithStatus ''Waiting for kfp-viz relation data'' Waiting) \<and>
   validate_sdi_interface
     [(''kfp-viz'', Some (SerializedDataInterface (Data [[], [(''service-name'', ''viz'')]])))]
     ''kfp-viz'' None =
   Inl (ErrorWithStatus ''Found empty relation data for kfp-viz'' Blocked)"
  using sdi_no_data_waits_empty_record_blocks
      [of "[(''kfp-viz'', Some (SerializedDataInterface (Data [])))]" "''kfp-viz''" "[]" None]
    sdi_no_data_waits_empty_record_blocks
      [of "[(''kfp-viz'', Some (SerializedDataInterface
              (Data [[], [(''service-name'', ''viz'')]])))]" "''kfp-viz''"
          "[[], [(''service-name'', ''viz'')]]" None]
  by simp

section \<open>The unreachable container\<close>

text \<open>
  C6, as the claim states it, fails: with an unreachable container the pass ends with
  Maintenance, not Waiting.
\<close>

theorem unreachable_container_maintenance:
  "\<not> can_connect unreachable_container \<and>
   on_event False unreachable_container =
     (None, unreachable_container\<lparr>status := Status Maintenance ''Pod startup is not complete''\<rparr>)"
  by (simp add: sample_defs pipeline_defs db_defs dict_defs)

text \<open>
  C6, amended. In every reconciliation pass that gets as far as the container (the unit is
  the leader, the interfaces are fetched and the configuration is generated), if the
  container is not reachable the pipeline stops there and the status is Maintenance with the
  message that pod startup is not complete.
\<close>

theorem unreachable_container_stops_pipeline:
  assumes "check_leader s = Inr ()" and "get_interfaces s = Inr ifaces"
    and "generate_config s ifaces = Inr cfg" and "\<not> can_connect s"
  shows "on_event force_conflicts s =
     (None, s\<lparr>status := Status Maintenance ''Pod startup is not complete''\<rparr>)"
  using assms
  by (simp add: on_event_def pipeline_def upload_files_to_container_def
      check_container_connection_def)

theorem unreachable_container_stops_pipeline_witness:
  "on_event True unreachable_container =
     (None, unreachable_container\<lparr>status := Status Maintenance ''Pod startup is not complete''\<rparr>)"
proof -
  let ?ifaces =
    "[(''object-storage'', Some (SerializedDataInterface (Data
         [[(''access-key'', ''minio''), (''namespace'', ''kubeflow''), (''port'', ''9000''),
           (''secret-key'', ''minio123''), (''secure'', ''False''),
           (''service'', ''minio'')]]))),
      (''kfp-viz'', Some (SerializedDataInterface (Data
         [[(''service-name'', ''kfp-viz.kubeflow''), (''service-port'', ''8888'')]]))),
      (''kfp-api'', None)]"
  have "\<exists>cfg. generate_config unreachable_container ?ifaces = Inr cfg"
    by (simp add: sample_defs pipeline_defs db_defs dict_defs)
  then obtain cfg where cfg: "generate_config unreachable_container ?ifaces = Inr cfg" ..
  have leader: "check_leader unreachable_container = Inr ()"
    by (simp add: sample_defs check_leader_def)
  have ifaces: "get_interfaces unreachable_container = Inr ?ifaces"
    by (simp add: sample_defs get_interfaces_def)
  have down: "\<not> can_connect unreachable_container"
    by (simp add: sample_defs)
  show ?thesis
    by (rule unreachable_container_stops_pipeline[OF leader ifaces cfg down])
qed

section \<open>What a pass leaves untouched, and which exceptions escape\<close>

lemma upload_files_to_container_reads:
  assumes "upload_files_to_container cfg s = (e, s')"
  shows "is_leader s' = is_leader s \<and> get_check s' = get_check s \<and>
         k8s_apply s' = k8s_apply s \<and> update_layer s' = update_layer s"
  using assms
  by (auto simp add: upload_files_to_container_def check_container_connection_def
      split: if_splits option.splits)

lemma apply_k8s_resources_reads:
  assumes "apply_k8s_resources force_conflicts s = (e, s')"
  shows "is_leader s' = is_leader s \<and> get_check s' = get_check s \<and>
         update_layer s' = update_layer s"
  using assms
  by (auto simp add: apply_k8s_resources_def Let_def split: if_splits option.splits)

lemma pipeline_reads:
  assumes "pipeline force_conflicts s = (e, s')"
  shows "is_leader s' = is_leader s \<and> get_check s' = get_check s"
proof (cases "check_leader s")
  case (Inl err)
  with assms show ?thesis by (simp add: pipeline_def)
next
  case leader: (Inr u)
  show ?thesis
  proof (cases "get_interfaces s")
    case (Inl err)
    with assms leader show ?thesis by (simp add: pipeline_def)
  next
    case ifaces: (Inr ifs)
    show ?thesis
    proof (cases "generate_config s ifs")
      case (Inl err)
      with assms leader ifaces show ?thesis by (simp add: pipeline_def)
    next
      case cfg: (Inr c)
      obtain e1 s1 where up: "upload_files_to_container c s = (e1, s1)"
        by (cases "upload_files_to_container c s")
      note r1 = upload_files_to_container_reads[OF up]
      show ?thesis
      proof (cases e1)
        case (Some err)
        with assms leader ifaces cfg up r1 show ?thesis by (simp add: pipeline_def)
      next
        case None
        obtain e2 s2 where ap: "apply_k8s_resources force_conflicts s1 = (e2, s2)"
          by (cases "apply_k8s_resources force_conflicts s1")
        note r2 = apply_k8s_resources_reads[OF ap]
        from assms leader ifaces cfg up None ap r1 r2 show ?thesis
          by (auto simp add: pipeline_def split: option.splits)
      qed
    qed
  qed
qed

lemma on_event_reads:
  assumes "on_event force_conflicts s = (e, s')"
  shows "is_leader s' = is_leader s \<and> get_check s' = get_check s"
proof -
  obtain e0 s0 where p: "pipeline force_conflicts s = (e0, s0)"
    by (cases "pipeline force_conflicts s")
  from assms p pipeline_reads[OF p] show ?thesis
    by (auto simp add: on_event_def split: option.splits error.splits)
qed

lemma on_event_not_leader:
  assumes "\<not> is_leader s"
  shows "on_event force_conflicts s =
     (None, s\<lparr>status := Status Waiting ''Waiting for leadership''\<rparr>)"
  using assms by (simp add: on_event_def pipeline_def check_leader_def)

lemma on_event_catches:
  "fst (on_event force_conflicts s) \<noteq> Some (ErrorWithStatus m t)"
  by (auto simp add: on_event_def split: prod.splits option.splits error.splits)

lemma apply_k8s_resources_raises:
  "fst (apply_k8s_resources force_conflicts s) \<noteq> Some (ErrorWithStatus m t)"
  by (auto simp add: apply_k8s_resources_def Let_def split: option.splits)

lemma on_remove_raises:
  "fst (on_remove s) \<noteq> Some (ErrorWithStatus m t)"
  by (auto simp add: on_remove_def Let_def split: option.splits)

lemma on_update_status_catches:
  "fst (on_update_status s) \<noteq> Some (ErrorWithStatus m t)"
  by (auto simp add: on_update_status_def split: prod.splits option.splits error.splits)

lemma on_relational_db_relation_catches:
  "fst (on_relational_db_relation s) \<noteq> Some (ErrorWithStatus m t)"
  using on_event_catches
  by (auto simp add: on_relational_db_relation_def
      split: sum.splits option.splits error.splits)

lemma on_mysql_relation_escape:
  assumes "fst (on_mysql_relation s) = Some (ErrorWithStatus m t)"
  shows "\<exists>ms. relations s ''mysql'' = Some ms \<and> 1 < length ms"
  using assms on_event_catches
  by (auto simp add: on_mysql_relation_def getitem_relations_def
      split: sum.splits option.splits error.splits if_splits)

section \<open>The periodic trigger\<close>

text \<open>
  C8. On the update-status trigger the full pipeline runs first (and an exception that
  escapes it ends the trigger). If the pipeline leaves Waiting or Blocked, the health check
  is not run and that status remains. Otherwise the outcome is decided by the health check
  alone: a check that is down makes the final status Maintenance with the message of the
  failed health check, not Active; a check that is up gives Active.
\<close>

theorem update_status_behaviour:
  "on_update_status s =
     (case on_event False s of
        (Some e, s1) \<Rightarrow> (Some e, s1)
      | (None, s1) \<Rightarrow>
          (if is_waiting_or_blocked (status s1) then (None, s1)
           else (case get_check s of
                   None \<Rightarrow>
                     (Some (GenericCharmRuntimeError
                              ''Failed to run health check on workload container''), s1)
                 | Some DOWN \<Rightarrow>
                     (None, s1\<lparr>status := Status Maintenance ''Workload failed health check''\<rparr>)
                 | Some UP \<Rightarrow> (None, s1\<lparr>status := Status Active []\<rparr>))))"
proof -
  obtain e s1 where ev: "on_event False s = (e, s1)"
    by (cases "on_event False s")
  note same = on_event_reads[OF ev]
  show ?thesis
  proof (cases e)
    case (Some err)
    with ev on_event_catches[of False s] have "\<forall>m t. err \<noteq> ErrorWithStatus m t"
      by auto
    with ev Some show ?thesis
      by (cases err) (simp_all add: on_update_status_def)
  next
    case None
    show ?thesis
    proof (cases "is_waiting_or_blocked (status s1)")
      case True
      with ev None show ?thesis by (simp add: on_update_status_def)
    next
      case False
      have "is_leader s"
      proof (rule ccontr)
        assume "\<not> is_leader s"
        with ev False show False
          by (auto simp add: on_event_not_leader is_waiting_or_blocked_def)
      qed
      with same have "check_leader s1 = Inr ()"
        by (simp add: check_leader_def)
      with ev None False same show ?thesis
        by (simp add: on_update_status_def check_status_def
            split: option.splits check_status.splits)
    qed
  qed
qed

theorem update_status_behaviour_witness:
  "on_update_status failing_health_check =
     (None, failing_health_check\<lparr>status := Status Maintenance ''Workload failed health check''\<rparr>) \<and>
   on_update_status no_database =
     (None, no_database\<lparr>status := Status Blocked
         ''Please add required database relation: eg. relational-db''\<rparr>)"
proof -
  have "on_event False failing_health_check =
      (None, failing_health_check\<lparr>status := Status Active []\<rparr>)"
    by (simp add: sample_defs pipeline_defs db_defs dict_defs)
  moreover have "on_event False no_database =
      (None, no_database\<lparr>status := Status Blocked
         ''Please add required database relation: eg. relational-db''\<rparr>)"
    by (simp add: sample_defs pipeline_defs db_defs dict_defs)
  ultimately show ?thesis
    using update_status_behaviour[of failing_health_check]
      update_status_behaviour[of no_database]
    by (simp add: is_waiting_or_blocked_def failing_health_check_def)
qed

section \<open>Too many mysql relations\<close>

text \<open>
  C10. With more than one mysql relation, the handler of the mysql joined and changed
  events raises an error carrying Blocked outside every \<^verbatim>\<open>try\<close>: the error escapes the
  handler and the unit status is left as it was. No other observed event lets a
  status-carrying error escape: the pipeline's are caught by \<^verbatim>\<open>_on_event\<close>, which writes the
  carried status, and those of the health check by the update-status handler, which does
  the same.
\<close>

theorem too_many_mysql_relations_escapes:
  "(\<forall>ms. relations s ''mysql'' = Some ms \<and> 1 < length ms \<longrightarrow>
      on_mysql_relation s =
        (Some (ErrorWithStatus ''Too many mysql relations. Relation mysql is deprecated.''
                 Blocked), s)) \<and>
   (\<forall>ev h m t. observe ev = Some h \<and> fst (h s) = Some (ErrorWithStatus m t) \<longrightarrow>
      (ev = relation_joined ''mysql'' \<or> ev = relation_changed ''mysql'') \<and>
      (\<exists>ms. relations s ''mysql'' = Some ms \<and> 1 < length ms)) \<and>
   (\<forall>f m t s'. pipeline f s = (Some (ErrorWithStatus m t), s') \<longrightarrow>
      on_event f s = (None, s'\<lparr>status := Status t m\<rparr>)) \<and>
   (\<forall>m t s1 s2. on_event False s = (None, s1) \<and> \<not> is_waiting_or_blocked (status s1) \<and>
        check_status s1 = (Some (ErrorWithStatus m t), s2) \<longrightarrow>
      on_update_status s = (None, s2\<lparr>status := Status t m\<rparr>))"
proof (intro conjI allI impI)
  fix ms
  assume "relations s ''mysql'' = Some ms \<and> 1 < length ms"
  then show "on_mysql_relation s =
      (Some (ErrorWithStatus ''Too many mysql relations. Relation mysql is deprecated.''
               Blocked), s)"
    by (simp add: on_mysql_relation_def getitem_relations_def message_defs)
next
  fix ev h m t
  assume a: "observe ev = Some h \<and> fst (h s) = Some (ErrorWithStatus m t)"
  then show "ev = relation_joined ''mysql'' \<or> ev = relation_changed ''mysql''"
    using on_event_catches[of False s m t] on_event_catches[of True s m t]
      apply_k8s_resources_raises[of False s m t] on_remove_raises[of s m t]
      on_update_status_catches[of s m t] on_relational_db_relation_catches[of s m t]
      on_event_catches[of False
        "s\<lparr>status := Status Maintenance (''Removing mysql relation. '' @ MYSQL_WARNING)\<rparr>" m t]
      on_event_catches[of False
        "s\<lparr>status := Status Maintenance ''Removing relational-db relation''\<rparr>" m t]
    by (auto simp add: observe_def on_install_def on_upgrade_def on_mysql_relation_remove_def
        on_relational_db_relation_remove_def split: event.splits if_splits)
  with a have "h = on_mysql_relation"
    by (auto simp add: observe_def)
  with a show "\<exists>ms. relations s ''mysql'' = Some ms \<and> 1 < length ms"
    using on_mysql_relation_escape by blast
next
  fix f m t s'
  assume "pipeline f s = (Some (ErrorWithStatus m t), s')"
  then show "on_event f s = (None, s'\<lparr>status := Status t m\<rparr>)"
    by (simp add: on_event_def)
next
  fix m t s1 s2
  assume "on_event False s = (None, s1) \<and> \<not> is_waiting_or_blocked (status s1) \<and>
        check_status s1 = (Some (ErrorWithStatus m t), s2)"
  then show "on_update_status s = (None, s2\<lparr>status := Status t m\<rparr>)"
    by (simp add: on_update_status_def)
qed

theorem too_many_mysql_relations_escapes_witness:
  "relations two_mysql_relations ''mysql'' = Some [mysql_relation, mysql_relation] \<and>
   on_mysql_relation two_mysql_relations =
     (Some (ErrorWithStatus ''Too many mysql relations. Relation mysql is deprecated.''
              Blocked), two_mysql_relations) \<and>
   status two_mysql_relations = Status Maintenance []"
  using too_many_mysql_relations_escapes[of two_mysql_relations]
  by (simp add: sample_defs)

end
